theory Spec2Isabelle
  imports Complex_Main
begin

section \<open>The superdense coding notebook\<close>

text \<open>
  The repository is one notebook, \<^verbatim>\<open>2_quantum_information/superdense_coding.ipynb\<close>.
  Its code cells run top to bottom: a guard on the version of the interpreter, the
  construction of one circuit over the registers \<^verbatim>\<open>q\<close> (two qubits) and \<^verbatim>\<open>c\<close> (two
  classical bits), its submission to a backend and the plot of the counts.
\<close>

subsection \<open>The version guard\<close>

text \<open>
  \<^verbatim>\<open>
  import sys
  if sys.version_info < (3,5):
      raise Exception('Please use Python version 3.5 or greater.')
  \<close>
  \<^verbatim>\<open>sys.version_info\<close> is the five-tuple (major, minor, micro, releaselevel, serial).
\<close>

record version_info =
  major :: nat
  minor :: nat
  micro :: nat
  releaselevel :: string
  serial :: nat

text \<open>
  Python orders tuples lexicographically: the first position where the two differ
  decides, and when one is a prefix of the other the shorter one is the smaller.
\<close>

fun tuple_lt :: "nat list \<Rightarrow> nat list \<Rightarrow> bool" where
  "tuple_lt [] [] = False"
| "tuple_lt [] (y # ys) = True"
| "tuple_lt (x # xs) [] = False"
| "tuple_lt (x # xs) (y # ys) = (if x = y then tuple_lt xs ys else x < y)"

text \<open>
  The right operand \<^verbatim>\<open>(3,5)\<close> has two positions, so the comparison is settled by
  major and minor, or by the lengths: the string \<^verbatim>\<open>releaselevel\<close> and \<^verbatim>\<open>serial\<close>
  are never compared. The numeric prefix of the tuple stands for it.
\<close>

definition version_tuple :: "version_info \<Rightarrow> nat list" where
  "version_tuple v = [major v, minor v, micro v]"

datatype error = Exception string

definition version_guard :: "version_info \<Rightarrow> error + unit" where
  "version_guard v =
     (if tuple_lt (version_tuple v) [3, 5]
      then Inl (Exception ''Please use Python version 3.5 or greater.'')
      else Inr ())"

text \<open>The reading of the guard in words: the runtime is older than 3.5.\<close>

definition predates_3_5 :: "version_info \<Rightarrow> bool" where
  "predates_3_5 v \<longleftrightarrow> major v < 3 \<or> (major v = 3 \<and> minor v < 5)"

subsection \<open>The circuit\<close>

text \<open>
  The instructions the notebook appends to the circuit \<^verbatim>\<open>superdense\<close>, with the
  indices into the registers \<^verbatim>\<open>q\<close> and \<^verbatim>\<open>c\<close> as the calls give them:
  \<^verbatim>\<open>h(q[i])\<close>, \<^verbatim>\<open>x(q[i])\<close>, \<^verbatim>\<open>z(q[i])\<close>, \<^verbatim>\<open>cx(q[i], q[j])\<close>, \<^verbatim>\<open>barrier()\<close> and
  \<^verbatim>\<open>measure(q[i], c[j])\<close>.
\<close>

datatype op = H nat | X nat | Z nat | CX nat nat | Barrier | Measure nat nat

text \<open>The two-bit message of the sender; the first bit is written first.\<close>

datatype message = M00 | M01 | M10 | M11

fun message_bits :: "message \<Rightarrow> bool \<times> bool" where
  "message_bits M00 = (False, False)"
| "message_bits M01 = (False, True)"
| "message_bits M10 = (True, False)"
| "message_bits M11 = (True, True)"

text \<open>
  \<^verbatim>\<open>
  superdense.h(q[0])
  superdense.cx(q[0], q[1])
  \<close>
\<close>

definition entangle :: "op list" where
  "entangle = [H 0, CX 0 1]"

text \<open>
  The encoding cell as committed:
  \<^verbatim>\<open>
  # For 00, do nothing

  # For 01, apply $X$
  #shared.x(q[0])

  # For 01, apply $Z$
  #shared.z(q[0])

  # For 11, apply $XZ$
  superdense.z(q[0])
  superdense.x(q[0])
  superdense.barrier()
  \<close>
  Its code is the last three lines: the cell is fixed to message 11. The notebook has
  no variable for the message and no branch on it.
\<close>

definition encoding_cell :: "op list" where
  "encoding_cell = [Z 0, X 0, Barrier]"

text \<open>
  Modelled from the spec: the Gate Selection, the function from the message to the
  operations on the sender's qubit, which the notebook does not have as code. The
  branches of 00, 01 and 10 are the spec's (00 identity, 01 bit-flip, 10 phase-flip);
  the comments of the cell and the prose of the notebook say the same, but the
  commented lines are not code: they name a circuit \<^verbatim>\<open>shared\<close> that no cell defines,
  and the line of Z is headed 01. The branch of 11 is the code of the cell,
  \<^verbatim>\<open>z\<close> first and \<^verbatim>\<open>x\<close> second.
\<close>

fun encode :: "message \<Rightarrow> op list" where
  "encode M00 = []"
| "encode M01 = [X 0]"
| "encode M10 = [Z 0]"
| "encode M11 = [Z 0, X 0]"

text \<open>
  \<^verbatim>\<open>
  superdense.cx(q[0], q[1])
  superdense.h(q[0])
  superdense.measure(q[0], c[0])
  superdense.measure(q[1], c[1])
  \<close>
\<close>

definition decode :: "op list" where
  "decode = [CX 0 1, H 0, Measure 0 0, Measure 1 1]"

text \<open>
  The circuit for a message: the preparation, the selected gates, the barrier and the
  decoding. Only its instance at message 11 is the notebook's code; for the other
  messages it rests on the modelled selection.
\<close>

definition superdense :: "message \<Rightarrow> op list" where
  "superdense m = entangle @ encode m @ [Barrier] @ decode"

text \<open>
  The circuit that the notebook builds, cell by cell; it is the listing that the
  notebook prints (h, cx, z, x, barrier, cx, h, measure, measure).
\<close>

definition committed_circuit :: "op list" where
  "committed_circuit = entangle @ encoding_cell @ decode"

text \<open>
  The notebook up to the submission: the guard of the first cell runs before any
  register or circuit exists, and an exception there ends the run.
\<close>

definition notebook :: "version_info \<Rightarrow> message \<Rightarrow> error + op list" where
  "notebook v m =
     (case version_guard v of
        Inl e \<Rightarrow> Inl e
      | Inr _ \<Rightarrow> Inr (superdense m))"


subsection \<open>States of the two qubits and the gates\<close>

text \<open>
  The gates are calls into the SDK, whose code is not part of the repository. What
  the notebook says about them is the matrices of its prose, and the semantics below
  is written from those. A state of the register \<^verbatim>\<open>q\<close> gives an amplitude to every
  pair (value of \<^verbatim>\<open>q[0]\<close>, value of \<^verbatim>\<open>q[1]\<close>); \<^verbatim>\<open>q[0]\<close> is the sender's qubit A and
  \<^verbatim>\<open>q[1]\<close> the receiver's qubit B ("With q_A = q_0 and q_B = q_1").
\<close>

type_synonym creg = "bool \<times> bool"
type_synonym state = "bool \<times> bool \<Rightarrow> complex"
type_synonym matrix2 = "bool \<Rightarrow> bool \<Rightarrow> complex"

definition inv_sqrt2 :: complex where
  "inv_sqrt2 = 1 / complex_of_real (sqrt 2)"

fun qubit_of :: "nat \<Rightarrow> bool \<times> bool \<Rightarrow> bool" where
  "qubit_of i (a, b) = (if i = 0 then a else b)"

fun with_bit :: "nat \<Rightarrow> bool \<Rightarrow> bool \<times> bool \<Rightarrow> bool \<times> bool" where
  "with_bit i v (a, b) = (if i = 0 then (v, b) else (a, v))"

text \<open>
  Modelled from the spec: the matrix of the SDK's gate \<^verbatim>\<open>h\<close>, which the repository
  does not hold; the notebook gives it as H = 1/sqrt 2 [[1, 1], [1, -1]]. Rows and
  columns are indexed by the value of the qubit, \<open>False\<close> for 0.
\<close>

definition mat_H :: matrix2 where
  "mat_H r c = inv_sqrt2 * (if r \<and> c then - 1 else 1)"

text \<open>
  Modelled from the spec: the matrix of the SDK's gate \<^verbatim>\<open>x\<close> (the bit-flip), not in
  the repository; the notebook gives X = [[0, 1], [1, 0]].
\<close>

definition mat_X :: matrix2 where
  "mat_X r c = (if r = c then 0 else 1)"

text \<open>
  Modelled from the spec: the matrix of the SDK's gate \<^verbatim>\<open>z\<close> (the phase-flip), not
  in the repository; the notebook gives Z = [[1, 0], [0, -1]].
\<close>

definition mat_Z :: matrix2 where
  "mat_Z r c = (if r = c then (if r then - 1 else 1) else 0)"

text \<open>The product the notebook prints for message 11: XZ = [[0, -1], [1, 0]].\<close>

definition mat_XZ :: matrix2 where
  "mat_XZ r c = (if r = c then 0 else if r then 1 else - 1)"

text \<open>
  The operator that the prose of the notebook assigns to each message: I = [[1, 0],
  [0, 1]] for 00, X for 01, Z for 10 and XZ for 11.
\<close>

definition mat_I :: matrix2 where
  "mat_I r c = (if r = c then 1 else 0)"

fun message_matrix :: "message \<Rightarrow> matrix2" where
  "message_matrix M00 = mat_I"
| "message_matrix M01 = mat_X"
| "message_matrix M10 = mat_Z"
| "message_matrix M11 = mat_XZ"

text \<open>
  Modelled from the spec: how the SDK's simulator applies a one-qubit matrix to
  qubit \<open>i\<close> of the register (not in the repository): the new amplitude of a basis
  state is the row of the matrix at the value of qubit \<open>i\<close>, times the old amplitudes
  of the two basis states that differ at most in qubit \<open>i\<close>.
\<close>

definition apply_1q :: "matrix2 \<Rightarrow> nat \<Rightarrow> state \<Rightarrow> state" where
  "apply_1q U i \<psi> =
     (\<lambda>s. U (qubit_of i s) False * \<psi> (with_bit i False s) +
          U (qubit_of i s) True * \<psi> (with_bit i True s))"

definition gate_h :: "nat \<Rightarrow> state \<Rightarrow> state" where
  "gate_h i = apply_1q mat_H i"

definition gate_x :: "nat \<Rightarrow> state \<Rightarrow> state" where
  "gate_x i = apply_1q mat_X i"

definition gate_z :: "nat \<Rightarrow> state \<Rightarrow> state" where
  "gate_z i = apply_1q mat_Z i"

text \<open>
  Modelled from the spec: the SDK's gate \<^verbatim>\<open>cx\<close>, not in the repository: the
  controlled-NOT flips qubit \<open>j\<close> in the basis states where qubit \<open>i\<close> is 1. It is
  the permutation matrix the notebook prints for the CNOT from q_A to q_B.
\<close>

definition gate_cx :: "nat \<Rightarrow> nat \<Rightarrow> state \<Rightarrow> state" where
  "gate_cx i j \<psi> =
     (\<lambda>s. if qubit_of i s then \<psi> (with_bit j (\<not> qubit_of j s) s) else \<psi> s)"

text \<open>
  The matrix as the notebook prints it, CNOT = [[1,0,0,0], [0,0,0,1], [0,0,1,0],
  [0,1,0,0]], with the row of a basis state counted with \<^verbatim>\<open>q[0]\<close> as the low bit.
\<close>

definition mat_CNOT :: "nat \<Rightarrow> nat \<Rightarrow> complex" where
  "mat_CNOT r c = (if (r, c) \<in> {(0, 0), (1, 3), (2, 2), (3, 1)} then 1 else 0)"

fun index_of :: "bool \<times> bool \<Rightarrow> nat" where
  "index_of (a, b) = (if a then 1 else 0) + (if b then 2 else 0)"

text \<open>
  Modelled from the spec: the measurement of the SDK's simulator, not in the
  repository. Measuring qubit \<open>i\<close> with result \<open>v\<close> keeps the amplitudes of the basis
  states where qubit \<open>i\<close> is \<open>v\<close>; the state is left unnormalised, so that the squared
  norm of a branch is the probability of its results.
\<close>

definition project :: "nat \<Rightarrow> bool \<Rightarrow> state \<Rightarrow> state" where
  "project i v \<psi> = (\<lambda>s. if qubit_of i s = v then \<psi> s else 0)"

text \<open>
  Modelled from the spec: how the SDK's simulator, which is not in the repository,
  runs the instructions of a circuit.
  A branch of a run: the classical register \<^verbatim>\<open>c\<close> (the pair \<^verbatim>\<open>c[0]\<close>, \<^verbatim>\<open>c[1]\<close>) and
  the state of \<^verbatim>\<open>q\<close>. An instruction on an index outside a register of size two, or a
  \<^verbatim>\<open>cx\<close> of a qubit with itself, is an error (\<open>None\<close>). \<^verbatim>\<open>measure(q[i], c[j])\<close> makes
  one branch for each result and writes the result to \<^verbatim>\<open>c[j]\<close>.
\<close>

type_synonym branch = "creg \<times> state"

fun apply_op :: "op \<Rightarrow> branch \<Rightarrow> branch list option" where
  "apply_op (H i) (cr, \<psi>) = (if i < 2 then Some [(cr, gate_h i \<psi>)] else None)"
| "apply_op (X i) (cr, \<psi>) = (if i < 2 then Some [(cr, gate_x i \<psi>)] else None)"
| "apply_op (Z i) (cr, \<psi>) = (if i < 2 then Some [(cr, gate_z i \<psi>)] else None)"
| "apply_op (CX i j) (cr, \<psi>) =
     (if i < 2 \<and> j < 2 \<and> i \<noteq> j then Some [(cr, gate_cx i j \<psi>)] else None)"
| "apply_op Barrier (cr, \<psi>) = Some [(cr, \<psi>)]"
| "apply_op (Measure i j) (cr, \<psi>) =
     (if i < 2 \<and> j < 2
      then Some [(with_bit j False cr, project i False \<psi>),
                 (with_bit j True cr, project i True \<psi>)]
      else None)"

fun step_all :: "op \<Rightarrow> branch list \<Rightarrow> branch list option" where
  "step_all g [] = Some []"
| "step_all g (b # bs) =
     (case apply_op g b of
        None \<Rightarrow> None
      | Some xs \<Rightarrow> (case step_all g bs of None \<Rightarrow> None | Some ys \<Rightarrow> Some (xs @ ys)))"

fun run :: "op list \<Rightarrow> branch list \<Rightarrow> branch list option" where
  "run [] bs = Some bs"
| "run (g # gs) bs = (case step_all g bs of None \<Rightarrow> None | Some bs' \<Rightarrow> run gs bs')"

text \<open>Fresh registers: both qubits in the zero state, both classical bits 0.\<close>

definition ket00 :: state where
  "ket00 = (\<lambda>s. if s = (False, False) then 1 else 0)"

definition init :: "branch list" where
  "init = [((False, False), ket00)]"

definition basis :: "(bool \<times> bool) list" where
  "basis = [(False, False), (False, True), (True, False), (True, True)]"

definition weight :: "state \<Rightarrow> real" where
  "weight \<psi> = (\<Sum>s\<leftarrow>basis. (cmod (\<psi> s))\<^sup>2)"

definition inner_prod :: "state \<Rightarrow> state \<Rightarrow> complex" where
  "inner_prod \<psi> \<phi> = (\<Sum>s\<leftarrow>basis. cnj (\<psi> s) * \<phi> s)"

definition scale :: "complex \<Rightarrow> state \<Rightarrow> state" where
  "scale k \<psi> = (\<lambda>s. k * \<psi> s)"

text \<open>
  Modelled from the spec: the probabilities of the simulator, which is not in the
  repository. The probability that a run ends with the classical register reading
  \<open>cr\<close> is the sum of the weights (squared norms) of the branches that read \<open>cr\<close>.
\<close>

definition branch_prob :: "branch list \<Rightarrow> creg \<Rightarrow> real" where
  "branch_prob bs cr = (\<Sum>b\<leftarrow>bs. if fst b = cr then weight (snd b) else 0)"

definition outcome_prob :: "op list \<Rightarrow> creg \<Rightarrow> real option" where
  "outcome_prob circ cr = map_option (\<lambda>bs. branch_prob bs cr) (run circ init)"

text \<open>
  The shared state of the notebook's prose, (|0_A 0_B> + |1_A 1_B>) / sqrt 2, and what
  makes a state of the pair maximally entangled: it has norm one and each qubit on its
  own is in the maximally mixed state (its reduced density matrix is half the identity).
\<close>

definition bell :: state where
  "bell = (\<lambda>s. if fst s = snd s then inv_sqrt2 else 0)"

definition reduced_sender :: "state \<Rightarrow> bool \<Rightarrow> bool \<Rightarrow> complex" where
  "reduced_sender \<psi> i j =
     \<psi> (i, False) * cnj (\<psi> (j, False)) + \<psi> (i, True) * cnj (\<psi> (j, True))"

definition reduced_receiver :: "state \<Rightarrow> bool \<Rightarrow> bool \<Rightarrow> complex" where
  "reduced_receiver \<psi> i j =
     \<psi> (False, i) * cnj (\<psi> (False, j)) + \<psi> (True, i) * cnj (\<psi> (True, j))"

definition maximally_entangled :: "state \<Rightarrow> bool" where
  "maximally_entangled \<psi> \<longleftrightarrow>
     weight \<psi> = 1 \<and>
     (\<forall>i j. reduced_sender \<psi> i j = (if i = j then 1 / 2 else 0)) \<and>
     (\<forall>i j. reduced_receiver \<psi> i j = (if i = j then 1 / 2 else 0))"

text \<open>The states of the pair after the encoding cell and after the gates of the decoding.\<close>

fun encoded_state :: "message \<Rightarrow> state" where
  "encoded_state M00 = (\<lambda>s. if fst s = snd s then inv_sqrt2 else 0)"
| "encoded_state M01 = (\<lambda>s. if fst s = snd s then 0 else inv_sqrt2)"
| "encoded_state M10 =
     (\<lambda>s. if fst s = snd s then (if fst s then - inv_sqrt2 else inv_sqrt2) else 0)"
| "encoded_state M11 =
     (\<lambda>s. if fst s = snd s then 0 else (if fst s then inv_sqrt2 else - inv_sqrt2))"

fun decoded_state :: "message \<Rightarrow> state" where
  "decoded_state M11 = (\<lambda>s. if s = message_bits M11 then - 1 else 0)"
| "decoded_state m = (\<lambda>s. if s = message_bits m then 1 else 0)"

text \<open>The parts of the circuit that the properties speak of.\<close>

definition decode_gates :: "op list" where
  "decode_gates = [CX 0 1, H 0]"

definition measure_both :: "op list" where
  "measure_both = [Measure 0 0, Measure 1 1]"

fun is_measure :: "op \<Rightarrow> bool" where
  "is_measure (Measure i j) = True"
| "is_measure g = False"

text \<open>
  The other order for message 11, as the words "bit-flip followed by phase-flip"
  read: \<^verbatim>\<open>x(q[0])\<close> first, then \<^verbatim>\<open>z(q[0])\<close>.
\<close>

definition encode_x_then_z :: "op list" where
  "encode_x_then_z = [X 0, Z 0]"

subsection \<open>Execution and the counts\<close>

text \<open>
  \<^verbatim>\<open>
  backend = 'ibmqx2'  # the device to run on
  shots = 1024       # the number of shots in the experiment
  result = Q_program.execute(circuits, backend=backend, shots=shots, max_credits=3, wait=10, timeout=240)
  plot_histogram(result.get_counts("superdense"))
  \<close>
\<close>

datatype backend = Device | Simulator

text \<open>
  Modelled from the spec: which readings of the classical register a shot can return;
  the executor is the SDK's and is not in the repository. Under ideal (noiseless)
  simulation a shot returns a reading of positive probability. A device is noisy: any
  reading can come back from a circuit that is well formed.
\<close>

fun possible :: "backend \<Rightarrow> op list \<Rightarrow> creg \<Rightarrow> bool" where
  "possible Simulator circ cr =
     (case outcome_prob circ cr of None \<Rightarrow> False | Some p \<Rightarrow> 0 < p)"
| "possible Device circ cr = (case run circ init of None \<Rightarrow> False | Some bs \<Rightarrow> True)"

text \<open>
  Modelled from the spec: \<^verbatim>\<open>Q_program.execute\<close>, not in the repository. A shot is one
  trial of the circuit; an execution with \<open>shots\<close> shots returns that many readings of
  the classical register. The credit ceiling, the poll interval and the timeout only
  decide whether the SDK returns at all, and are left out.
\<close>

definition execute :: "backend \<Rightarrow> op list \<Rightarrow> nat \<Rightarrow> creg list \<Rightarrow> bool" where
  "execute be circ shots os \<longleftrightarrow> length os = shots \<and> list_all (possible be circ) os"

definition bit_char :: "bool \<Rightarrow> char" where
  "bit_char b = (if b then CHR ''1'' else CHR ''0'')"

text \<open>
  Modelled from the spec: the key of a reading in the counts, a string of two
  characters. Whether the SDK prints \<^verbatim>\<open>c[0]\<close> first or last is not fixed by the
  notebook, so the order is a parameter.
\<close>

definition bitstring :: "bool \<Rightarrow> creg \<Rightarrow> string" where
  "bitstring c0_first cr =
     (if c0_first then [bit_char (fst cr), bit_char (snd cr)]
      else [bit_char (snd cr), bit_char (fst cr)])"

text \<open>The message written as the spec writes it, first bit first.\<close>

fun message_key :: "message \<Rightarrow> string" where
  "message_key M00 = ''00''"
| "message_key M01 = ''01''"
| "message_key M10 = ''10''"
| "message_key M11 = ''11''"

text \<open>
  Modelled from the spec: \<^verbatim>\<open>result.get_counts\<close>, not in the repository: the mapping
  from each observed key to the number of shots that read it.
\<close>

definition get_counts :: "bool \<Rightarrow> creg list \<Rightarrow> (string \<rightharpoonup> nat)" where
  "get_counts c0_first os =
     (\<lambda>k. let n = count_list (map (bitstring c0_first) os) k
          in if n = 0 then None else Some n)"

text \<open>
  The session after the execution cell, and the last code cell, which reads the
  result to draw the histogram.
\<close>

record session =
  result :: "creg list"
  figure :: "(string \<rightharpoonup> nat) option"

definition plot_cell :: "bool \<Rightarrow> session \<Rightarrow> session" where
  "plot_cell c0_first s = s\<lparr>figure := Some (get_counts c0_first (result s))\<rparr>"

section \<open>Properties\<close>

subsection \<open>The guard and the shape of the circuit\<close>

lemma tuple_lt_3_5:
  "tuple_lt (version_tuple v) [3, 5] \<longleftrightarrow> predates_3_5 v"
  by (auto simp: version_tuple_def predates_3_5_def)

text \<open>
  C7: the notebook raises its exception exactly when the version of the interpreter
  is older than 3.5, and then no circuit is built; from 3.5 on it goes on to build
  the circuit.
\<close>

theorem version_guard_iff:
  "((\<exists>e. notebook v m = Inl e) \<longleftrightarrow> predates_3_5 v) \<and>
   notebook v m =
     (if predates_3_5 v then Inl (Exception ''Please use Python version 3.5 or greater.'')
      else Inr (superdense m))"
  by (simp add: notebook_def version_guard_def tuple_lt_3_5)

text \<open>
  C4: the decoding is the fixed sequence controlled-NOT from the sender's to the
  receiver's qubit, Hadamard on the sender's qubit, then the measurement of both
  qubits into the classical bits; whatever the message, it is what follows the
  barrier in the circuit.
\<close>

theorem decode_fixed:
  "decode = [CX 0 1, H 0, Measure 0 0, Measure 1 1] \<and>
   drop (length (entangle @ encode m @ [Barrier])) (superdense m) = decode \<and>
   tl (dropWhile (\<lambda>g. g \<noteq> Barrier) (superdense m)) = decode"
  by (cases m) (simp_all add: superdense_def entangle_def decode_def)

subsection \<open>Running the circuit\<close>

lemmas gate_defs = gate_h_def gate_x_def gate_z_def gate_cx_def apply_1q_def
  mat_H_def mat_X_def mat_Z_def

lemma inv_sqrt2_sq: "inv_sqrt2 * inv_sqrt2 = 1 / 2"
  unfolding inv_sqrt2_def by (simp flip: of_real_mult)

lemma cnj_inv_sqrt2: "cnj inv_sqrt2 = inv_sqrt2"
  by (simp add: inv_sqrt2_def)

lemma cmod_inv_sqrt2_sq: "(cmod inv_sqrt2)\<^sup>2 = 1 / 2"
  by (simp add: inv_sqrt2_def norm_divide power_divide)

lemma gate_cx_matrix:
  "gate_cx 0 1 \<psi> s = (\<Sum>t\<leftarrow>[(False, False), (True, False), (False, True), (True, True)].
      mat_CNOT (index_of s) (index_of t) * \<psi> t)"
  by (cases s) (auto simp: gate_cx_def mat_CNOT_def)

lemma run_append:
  "run (xs @ ys) bs = (case run xs bs of None \<Rightarrow> None | Some bs' \<Rightarrow> run ys bs')"
  by (induction xs arbitrary: bs) (auto split: option.splits)

lemma run_entangle: "run entangle init = Some [((False, False), bell)]"
  by (auto simp: entangle_def init_def gate_defs ket00_def bell_def fun_eq_iff)

lemma bell_maximally_entangled: "maximally_entangled bell"
  by (simp add: maximally_entangled_def weight_def basis_def bell_def reduced_sender_def
      reduced_receiver_def cnj_inv_sqrt2 inv_sqrt2_sq cmod_inv_sqrt2_sq)

lemma run_encode:
  "run (entangle @ encode m) init = Some [((False, False), encoded_state m)]"
  by (cases m) (auto simp: run_append run_entangle bell_def gate_defs fun_eq_iff)

lemma weight_encoded: "weight (encoded_state m) = 1"
  by (cases m) (simp_all add: weight_def basis_def cmod_inv_sqrt2_sq)

lemma inner_encoded:
  "inner_prod (encoded_state m1) (encoded_state m2) = (if m1 = m2 then 1 else 0)"
  by (cases m1; cases m2) (simp_all add: inner_prod_def basis_def cnj_inv_sqrt2 inv_sqrt2_sq)

text \<open>The gates of the decoding take each encoded state to a basis state.\<close>

lemma run_decode_gates:
  "run (Barrier # decode_gates) [((False, False), encoded_state m)] =
     Some [((False, False), decoded_state m)]"
  by (cases m) (auto simp: decode_gates_def gate_defs fun_eq_iff inv_sqrt2_sq)

lemma run_until_measure:
  "run (entangle @ encode m @ Barrier # decode_gates) init =
     Some [((False, False), decoded_state m)]"
proof -
  have "run (entangle @ encode m @ Barrier # decode_gates) init =
        run (Barrier # decode_gates) [((False, False), encoded_state m)]"
    using run_append [of "entangle @ encode m" "Barrier # decode_gates" init]
    by (simp add: run_encode)
  then show ?thesis
    by (simp only: run_decode_gates)
qed

text \<open>
  Measuring both qubits makes the four branches, one for each reading, and the
  reading \<open>(c0, c1)\<close> has the weight of the amplitude at \<open>q[0] = c0\<close>, \<open>q[1] = c1\<close>.
\<close>

lemma run_measure_both:
  "run measure_both [(cr, \<psi>)] =
     Some [((False, False), project 1 False (project 0 False \<psi>)),
           ((False, True), project 1 True (project 0 False \<psi>)),
           ((True, False), project 1 False (project 0 True \<psi>)),
           ((True, True), project 1 True (project 0 True \<psi>))]"
  by (cases cr) (simp add: measure_both_def)

lemma measure_both_prob:
  "\<exists>bs. run measure_both [(cr, \<psi>)] = Some bs \<and>
        (\<forall>c. branch_prob bs c = (cmod (\<psi> c))\<^sup>2)"
  unfolding run_measure_both
  by (auto simp: branch_prob_def weight_def basis_def project_def)

lemma superdense_split:
  "superdense m = (entangle @ encode m @ Barrier # decode_gates) @ measure_both"
  by (simp add: superdense_def decode_def decode_gates_def measure_both_def)

lemma run_superdense:
  "\<exists>bs. run (superdense m) init = Some bs \<and>
        (\<forall>c. branch_prob bs c = (cmod (decoded_state m c))\<^sup>2)"
  unfolding superdense_split run_append [of _ measure_both] run_until_measure
  using measure_both_prob [of "(False, False)" "decoded_state m"] by simp

lemma outcome_prob_superdense:
  "outcome_prob (superdense m) cr = Some (if cr = message_bits m then 1 else 0)"
proof -
  obtain bs where "run (superdense m) init = Some bs"
    and "\<And>c. branch_prob bs c = (cmod (decoded_state m c))\<^sup>2"
    using run_superdense by blast
  then show ?thesis
    by (cases m) (simp_all add: outcome_prob_def)
qed

lemma inv_sqrt2_sq_left: "inv_sqrt2 * (inv_sqrt2 * z) = z / 2"
  using inv_sqrt2_sq by (simp flip: mult.assoc)

text \<open>The Hadamard gate is its own inverse: the basis change of the decoding undoes
  the one of the preparation.\<close>

lemma gate_h_involution: "i < 2 \<Longrightarrow> gate_h i (gate_h i \<psi>) = \<psi>"
  by (auto simp: gate_defs fun_eq_iff less_2_cases_iff inv_sqrt2_sq_left algebra_simps)

text \<open>The live lines of the encoding cell, \<^verbatim>\<open>z\<close> then \<^verbatim>\<open>x\<close>, apply the matrix XZ that
  the notebook prints for message 11.\<close>

lemma encode_11_is_XZ:
  "i < 2 \<Longrightarrow> gate_x i (gate_z i \<psi>) = apply_1q mat_XZ i \<psi>"
  by (auto simp: gate_defs mat_XZ_def fun_eq_iff less_2_cases_iff)

lemma run_entangle_decode:
  "run (entangle @ decode_gates) init = Some [((False, False), decoded_state M00)]"
proof -
  have "run (entangle @ decode_gates) init = run decode_gates [((False, False), encoded_state M00)]"
    using run_append [of entangle decode_gates init] run_encode [of M00] by simp
  also have "\<dots> = Some [((False, False), decoded_state M00)]"
    using run_decode_gates [of M00] by simp
  finally show ?thesis .
qed

lemma outcome_prob_entangle_decode:
  "outcome_prob (entangle @ decode) cr = Some (if cr = (False, False) then 1 else 0)"
proof -
  have split: "entangle @ decode = (entangle @ decode_gates) @ measure_both"
    by (simp add: decode_def decode_gates_def measure_both_def)
  obtain bs where "run measure_both [((False, False), decoded_state M00)] = Some bs"
    and "\<And>c. branch_prob bs c = (cmod (decoded_state M00 c))\<^sup>2"
    using measure_both_prob by blast
  then show ?thesis
    unfolding split outcome_prob_def run_append [of _ measure_both] run_entangle_decode
    by simp
qed

lemma run_x_then_z:
  "run (entangle @ encode_x_then_z) init = Some [((False, False), scale (- 1) (encoded_state M11))]"
  by (auto simp: run_append run_entangle bell_def encode_x_then_z_def gate_defs scale_def fun_eq_iff)

lemma run_x_then_z_decode:
  "run (entangle @ encode_x_then_z @ Barrier # decode_gates) init =
     Some [((False, False), scale (- 1) (decoded_state M11))]"
proof -
  have "run (entangle @ encode_x_then_z @ Barrier # decode_gates) init =
        run (Barrier # decode_gates) [((False, False), scale (- 1) (encoded_state M11))]"
    using run_append [of "entangle @ encode_x_then_z" "Barrier # decode_gates" init]
    by (simp add: run_x_then_z)
  also have "\<dots> = Some [((False, False), scale (- 1) (decoded_state M11))]"
    by (auto simp: decode_gates_def gate_defs scale_def fun_eq_iff inv_sqrt2_sq)
  finally show ?thesis .
qed

lemma outcome_prob_x_then_z:
  "outcome_prob (entangle @ encode_x_then_z @ [Barrier] @ decode) cr =
     Some (if cr = (True, True) then 1 else 0)"
proof -
  have split: "entangle @ encode_x_then_z @ [Barrier] @ decode =
      (entangle @ encode_x_then_z @ Barrier # decode_gates) @ measure_both"
    by (simp add: decode_def decode_gates_def measure_both_def)
  obtain bs where "run measure_both [((False, False), scale (- 1) (decoded_state M11))] = Some bs"
    and "\<And>c. branch_prob bs c = (cmod (scale (- 1) (decoded_state M11) c))\<^sup>2"
    using measure_both_prob by blast
  then show ?thesis
    unfolding split outcome_prob_def run_append [of _ measure_both] run_x_then_z_decode
    by (simp add: scale_def)
qed

subsection \<open>The counts of an execution\<close>

lemma dom_get_counts: "dom (get_counts ord os) = set (map (bitstring ord) os)"
  by (auto simp: get_counts_def Let_def dom_def count_list_0_iff)

lemma sum_get_counts:
  "(\<Sum>k\<in>dom (get_counts ord os). the (get_counts ord os k)) = length os"
proof -
  let ?xs = "map (bitstring ord) os"
  have "(\<Sum>k\<in>set ?xs. the (get_counts ord os k)) = (\<Sum>k\<in>set ?xs. count_list ?xs k)"
    by (rule sum.cong) (auto simp: get_counts_def Let_def count_list_0_iff)
  also have "\<dots> = length ?xs"
    by (rule sum_count_set) auto
  finally show ?thesis by (simp add: dom_get_counts)
qed

lemma keys_get_counts: "dom (get_counts ord os) \<subseteq> {''00'', ''01'', ''10'', ''11''}"
  by (auto simp: dom_get_counts bitstring_def bit_char_def split: if_splits)

lemma list_all_eq_replicate: "list_all (\<lambda>x. x = a) xs \<Longrightarrow> xs = replicate (length xs) a"
  by (induction xs) auto

lemma count_list_replicate: "count_list (replicate n x) k = (if k = x then n else 0)"
  by (induction n) auto

lemma possible_superdense: "possible Simulator (superdense m) = (\<lambda>cr. cr = message_bits m)"
  by (simp add: fun_eq_iff outcome_prob_superdense)

lemma execute_superdense:
  assumes "execute Simulator (superdense m) n os"
  shows "os = replicate n (message_bits m)"
proof -
  have "length os = n" and "list_all (\<lambda>x. x = message_bits m) os"
    using assms by (simp_all add: execute_def possible_superdense)
  then show ?thesis using list_all_eq_replicate [of "message_bits m" os] by simp
qed

lemma counts_superdense:
  assumes "execute Simulator (superdense m) n os" and "0 < n"
  shows "get_counts ord os = [bitstring ord (message_bits m) \<mapsto> n]"
  using assms(2) unfolding execute_superdense [OF assms(1)]
  by (auto simp: get_counts_def Let_def count_list_replicate fun_eq_iff)

lemma run_superdense_ok: "run (superdense m) init \<noteq> None"
  using run_superdense [of m] by auto

subsection \<open>The selected gates and the decoding from any register\<close>

text \<open>Each selection applies the operator that the prose assigns to its message.\<close>

lemma run_encode_matrix:
  "run (encode m) [(cr, \<psi>)] = Some [(cr, apply_1q (message_matrix m) 0 \<psi>)]"
  by (cases m) (auto simp: gate_defs mat_I_def mat_XZ_def fun_eq_iff)

lemma x_then_z_not_XZ:
  "run encode_x_then_z [(cr, ket00)] \<noteq> Some [(cr, apply_1q mat_XZ 0 ket00)]"
  by (auto simp: encode_x_then_z_def gate_defs mat_XZ_def ket00_def fun_eq_iff)

lemma run_entangle_decode_gates_any:
  "run (entangle @ decode_gates) [(cr0, ket00)] = Some [(cr0, ket00)]"
  by (auto simp: entangle_def decode_gates_def gate_defs ket00_def fun_eq_iff inv_sqrt2_sq)

lemma run_entangle_decode_any:
  "\<exists>bs. run (entangle @ decode) [(cr0, ket00)] = Some bs \<and>
        (\<forall>cr. branch_prob bs cr = (if cr = (False, False) then 1 else 0))"
proof -
  have split: "entangle @ decode = (entangle @ decode_gates) @ measure_both"
    by (simp add: decode_def decode_gates_def measure_both_def)
  obtain bs where "run measure_both [(cr0, ket00)] = Some bs"
    and "\<And>c. branch_prob bs c = (cmod (ket00 c))\<^sup>2"
    using measure_both_prob by blast
  then show ?thesis
    unfolding split run_append [of _ measure_both] run_entangle_decode_gates_any
    by (simp add: ket00_def)
qed

lemma key_of_bits:
  "bitstring True (message_bits m) = message_key m"
  "bitstring False (message_bits m) = rev (message_key m)"
  by (cases m; simp add: bitstring_def bit_char_def)+

subsection \<open>The protocol\<close>

text \<open>
  C3: from two fresh qubits in the zero state, the preparation is a Hadamard on the
  first qubit followed by a controlled-NOT from the first to the second; it runs
  without error and leaves the pair in the state (|00> + |11>) / sqrt 2, which is
  maximally entangled.
\<close>

theorem entangle_postcondition:
  "entangle = [H 0, CX 0 1] \<and>
   run entangle init = Some [((False, False), bell)] \<and>
   maximally_entangled bell"
  using run_entangle bell_maximally_entangled by (simp add: entangle_def)

text \<open>
  C2, as stated, has message 11 select the bit-flip followed by the phase-flip. The
  encoding cell appends \<^verbatim>\<open>z\<close> first and \<^verbatim>\<open>x\<close> second.
\<close>

theorem encode_selection_counterexample: "encode M11 \<noteq> [X 0, Z 0]"
  by simp

text \<open>
  C2, amended: the gate selection is a function of the message: no operation for 00,
  the bit-flip X for 01, the phase-flip Z for 10, and for 11 the phase-flip followed
  by the bit-flip (Z then X); the four selections are pairwise different, and each
  applies to the sender's qubit the operator that the notebook assigns to the
  message (I, X, Z and the product XZ). The branch of 11 is the code of the encoding
  cell, and with it the circuit of message 11 is the circuit the notebook builds.
\<close>

theorem encode_selection:
  "encode M00 = [] \<and> encode M01 = [X 0] \<and> encode M10 = [Z 0] \<and> encode M11 = [Z 0, X 0] \<and>
   distinct (map encode [M00, M01, M10, M11]) \<and>
   encoding_cell = encode M11 @ [Barrier] \<and>
   committed_circuit = superdense M11 \<and>
   run (encode m) [(cr, \<psi>)] = Some [(cr, apply_1q (message_matrix m) 0 \<psi>)]"
  using run_encode_matrix [of m cr \<psi>]
  by (simp add: encoding_cell_def committed_circuit_def superdense_def)

text \<open>
  C5: encoding 00 appends no operation, so the state sent is the shared entangled
  state itself; the gates of the decoding take that state back to |00>, and the
  decoding applied right after the preparation reads 00 with probability 1,
  whatever the classical register held before.
\<close>

theorem encode_00_is_identity:
  "encode M00 = [] \<and>
   run (entangle @ encode M00) init = run entangle init \<and>
   outcome_prob (entangle @ decode) cr = Some (if cr = (False, False) then 1 else 0) \<and>
   run (entangle @ [CX 0 1, H 0]) [(cr0, ket00)] = Some [(cr0, ket00)] \<and>
   (\<exists>bs. run (entangle @ decode) [(cr0, ket00)] = Some bs \<and>
         (\<forall>c. branch_prob bs c = (if c = (False, False) then 1 else 0)))"
  using outcome_prob_entangle_decode [of cr] run_entangle_decode_any [of cr0]
    run_entangle_decode_gates_any [of cr0]
  by (simp add: decode_gates_def)

text \<open>
  C6: for two different messages, the states of the pair after the encoding (and
  before the decoding) are orthogonal: they are unit vectors and their inner product
  is zero.
\<close>

theorem encoded_states_orthogonal:
  assumes "m1 \<noteq> m2"
  shows "\<exists>\<psi>1 \<psi>2. run (entangle @ encode m1) init = Some [((False, False), \<psi>1)] \<and>
                run (entangle @ encode m2) init = Some [((False, False), \<psi>2)] \<and>
                inner_prod \<psi>1 \<psi>2 = 0 \<and> weight \<psi>1 = 1 \<and> weight \<psi>2 = 1"
  using assms by (simp add: run_encode inner_encoded weight_encoded)

theorem encoded_states_orthogonal_witness:
  "M00 \<noteq> M11 \<and>
   (\<exists>\<psi>1 \<psi>2. run (entangle @ encode M00) init = Some [((False, False), \<psi>1)] \<and>
            run (entangle @ encode M11) init = Some [((False, False), \<psi>2)] \<and>
            inner_prod \<psi>1 \<psi>2 = 0 \<and> weight \<psi>1 = 1 \<and> weight \<psi>2 = 1) \<and>
   M01 \<noteq> M10 \<and>
   (\<exists>\<psi>1 \<psi>2. run (entangle @ encode M01) init = Some [((False, False), \<psi>1)] \<and>
            run (entangle @ encode M10) init = Some [((False, False), \<psi>2)] \<and>
            inner_prod \<psi>1 \<psi>2 = 0 \<and> weight \<psi>1 = 1 \<and> weight \<psi>2 = 1)"
  using encoded_states_orthogonal [of M00 M11] encoded_states_orthogonal [of M01 M10] by simp

text \<open>
  C9: the measurements of the circuit are \<^verbatim>\<open>q[0]\<close> into \<^verbatim>\<open>c[0]\<close> and \<^verbatim>\<open>q[1]\<close> into
  \<^verbatim>\<open>c[1]\<close>, for every message; so from any state of the pair, the classical register
  reads \<open>(c0, c1)\<close> with the probability that the sender's qubit is \<open>c0\<close> and the
  receiver's qubit is \<open>c1\<close>.
\<close>

theorem measurement_bit_order:
  "filter is_measure (superdense m) = [Measure 0 0, Measure 1 1] \<and>
   (\<exists>bs. run [Measure 0 0, Measure 1 1] [(cr, \<psi>)] = Some bs \<and>
         (\<forall>c0 c1. branch_prob bs (c0, c1) = (cmod (\<psi> (c0, c1)))\<^sup>2))"
proof -
  have "filter is_measure (superdense m) = [Measure 0 0, Measure 1 1]"
    by (cases m) (simp_all add: superdense_def entangle_def decode_def)
  moreover have "\<exists>bs. run [Measure 0 0, Measure 1 1] [(cr, \<psi>)] = Some bs \<and>
         (\<forall>c0 c1. branch_prob bs (c0, c1) = (cmod (\<psi> (c0, c1)))\<^sup>2)"
    using measure_both_prob [of cr \<psi>] unfolding measure_both_def by blast
  ultimately show ?thesis by blast
qed

text \<open>
  C10: for message 11, the encoding as the cell has it (Z then X) and the encoding in
  the other order (X then Z) give states of the pair that differ by the global phase
  -1 only, and after the decoding both circuits have the same probability for every
  reading of the classical register.
\<close>

theorem encoding_order_global_phase:
  "encode M11 = [Z 0, X 0] \<and> encode_x_then_z = [X 0, Z 0] \<and>
   (\<exists>\<psi>. run (entangle @ encode M11) init = Some [((False, False), \<psi>)] \<and>
        run (entangle @ encode_x_then_z) init = Some [((False, False), scale (- 1) \<psi>)] \<and>
        weight \<psi> = 1) \<and>
   cmod (- 1) = 1 \<and>
   outcome_prob (entangle @ encode_x_then_z @ [Barrier] @ decode) cr =
     outcome_prob (superdense M11) cr"
proof -
  have "\<exists>\<psi>. run (entangle @ encode M11) init = Some [((False, False), \<psi>)] \<and>
        run (entangle @ encode_x_then_z) init = Some [((False, False), scale (- 1) \<psi>)] \<and>
        weight \<psi> = 1"
    using run_encode [of M11] run_x_then_z weight_encoded [of M11] by blast
  moreover have "outcome_prob (entangle @ encode_x_then_z @ [Barrier] @ decode) cr =
      outcome_prob (superdense M11) cr"
    by (simp only: outcome_prob_x_then_z outcome_prob_superdense message_bits.simps)
  moreover have "encode M11 = [Z 0, X 0]" and "encode_x_then_z = [X 0, Z 0]"
    and "cmod (- 1) = 1"
    by (simp_all add: encode_x_then_z_def)
  ultimately show ?thesis by blast
qed

text \<open>
  C1: for each of the four messages, the full circuit under ideal simulation reads
  the bits of the message with probability 1 (and any other reading with probability
  0), so every shot of an ideal execution lands on one key: the message itself when
  the key prints \<^verbatim>\<open>c[0]\<close> first, the message reversed when it prints \<^verbatim>\<open>c[1]\<close> first.
  For message 11 and 1024 shots the counts are 1024 on the key "11" in either order.
\<close>

theorem superdense_decodes_message:
  "outcome_prob (superdense m) cr = Some (if cr = message_bits m then 1 else 0) \<and>
   (execute Simulator (superdense m) shots os \<and> 0 < shots \<longrightarrow>
      get_counts c0_first os = [bitstring c0_first (message_bits m) \<mapsto> shots] \<and>
      get_counts True os = [message_key m \<mapsto> shots] \<and>
      get_counts False os = [rev (message_key m) \<mapsto> shots]) \<and>
   (execute Simulator (superdense M11) 1024 os' \<longrightarrow>
      get_counts c0_first os' = [''11'' \<mapsto> 1024])"
proof -
  have "get_counts c0_first os' = [''11'' \<mapsto> 1024]"
    if "execute Simulator (superdense M11) 1024 os'"
    using counts_superdense [OF that, of c0_first] by (simp add: bitstring_def bit_char_def)
  moreover have "get_counts c0_first os = [bitstring c0_first (message_bits m) \<mapsto> shots] \<and>
      get_counts True os = [message_key m \<mapsto> shots] \<and>
      get_counts False os = [rev (message_key m) \<mapsto> shots]"
    if "execute Simulator (superdense m) shots os" and "0 < shots"
    using counts_superdense [OF that, of c0_first] counts_superdense [OF that, of True]
      counts_superdense [OF that, of False]
    by (simp only: key_of_bits simp_thms)
  ultimately show ?thesis
    using outcome_prob_superdense by blast
qed

theorem superdense_decodes_message_witness:
  "outcome_prob (superdense M01) (False, True) = Some 1 \<and>
   execute Simulator (superdense M01) 1024 (replicate 1024 (False, True)) \<and>
   get_counts True (replicate 1024 (False, True)) = [''01'' \<mapsto> 1024] \<and>
   get_counts False (replicate 1024 (False, True)) = [''10'' \<mapsto> 1024] \<and>
   execute Simulator (superdense M11) 1024 (replicate 1024 (True, True)) \<and>
   get_counts False (replicate 1024 (True, True)) = [''11'' \<mapsto> 1024]"
proof -
  have ex01: "execute Simulator (superdense M01) 1024 (replicate 1024 (False, True))"
    by (simp add: execute_def list_all_iff outcome_prob_superdense)
  have ex11: "execute Simulator (superdense M11) 1024 (replicate 1024 (True, True))"
    by (simp add: execute_def list_all_iff outcome_prob_superdense)
  show ?thesis
    using ex01 ex11
      superdense_decodes_message [of M01 "(False, True)" 1024 "replicate 1024 (False, True)" False
        "replicate 1024 (True, True)"]
    by (simp add: bitstring_def bit_char_def)
qed

text \<open>
  C8: the counts of an execution have keys among the four strings of two bits, their
  values are natural numbers that add up to the number of shots, and drawing the
  histogram leaves the result as it was returned.
\<close>

theorem result_shape:
  assumes "execute be circ shots os"
  shows "dom (get_counts c0_first os) \<subseteq> {''00'', ''01'', ''10'', ''11''} \<and>
         finite (dom (get_counts c0_first os)) \<and>
         (\<Sum>k\<in>dom (get_counts c0_first os). the (get_counts c0_first os k)) = shots \<and>
         result (plot_cell c0_first \<lparr>result = os, figure = None\<rparr>) = os"
proof -
  have "length os = shots"
    using assms by (simp add: execute_def)
  moreover have "finite (dom (get_counts c0_first os))"
    by (simp add: dom_get_counts)
  ultimately show ?thesis
    using keys_get_counts [of c0_first os] sum_get_counts [of c0_first os]
    by (simp add: plot_cell_def)
qed

theorem result_shape_witness:
  "execute Device (superdense M11) 3 [(True, True), (False, True), (True, True)] \<and>
   dom (get_counts False [(True, True), (False, True), (True, True)]) \<subseteq> {''00'', ''01'', ''10'', ''11''} \<and>
   (\<Sum>k\<in>dom (get_counts False [(True, True), (False, True), (True, True)]).
       the (get_counts False [(True, True), (False, True), (True, True)] k)) = 3"
proof -
  have ex: "execute Device (superdense M11) 3 [(True, True), (False, True), (True, True)]"
    using run_superdense_ok [of M11] by (auto simp: execute_def)
  show ?thesis
    using ex result_shape [OF ex, of False] by simp
qed

end
